theory Spec2Isabelle
  imports Complex_Main "HOL-Library.Log_Nat"
begin

section \<open>Strings\<close>

text \<open>
  A JavaScript string is modelled as a HOL \<open>string\<close>, one \<open>char\<close> per code unit.
  The case mapping and the white-space class are the ASCII ones, so \<open>trim\<close> and
  \<open>toUpperCase\<close> are those of the program on ASCII strings (\<open>isAscii\<close>) and every
  statement below about an arbitrary string that goes through them is made for ASCII
  strings. Beyond ASCII the program also trims the Unicode white space (U+00A0 among
  it) and maps further letters (U+00DF to \<open>SS\<close>), which the model does not.
\<close>

definition isAscii :: "string \<Rightarrow> bool" where
  "isAscii s = list_all (\<lambda>c. (of_char c :: nat) < 128) s"

definition isWhiteSpace :: "char \<Rightarrow> bool" where
  "isWhiteSpace c = (let n = (of_char c :: nat) in (9 \<le> n \<and> n \<le> 13) \<or> n = 32)"

definition trimStart :: "string \<Rightarrow> string" where
  "trimStart s = dropWhile isWhiteSpace s"

definition trim :: "string \<Rightarrow> string" where
  "trim s = rev (dropWhile isWhiteSpace (rev (dropWhile isWhiteSpace s)))"

definition isLower :: "char \<Rightarrow> bool" where
  "isLower c = (let n = (of_char c :: nat) in 97 \<le> n \<and> n \<le> 122)"

definition isUpper :: "char \<Rightarrow> bool" where
  "isUpper c = (let n = (of_char c :: nat) in 65 \<le> n \<and> n \<le> 90)"

definition isDigit :: "char \<Rightarrow> bool" where
  "isDigit c = (let n = (of_char c :: nat) in 48 \<le> n \<and> n \<le> 57)"

definition upperChar :: "char \<Rightarrow> char" where
  "upperChar c = (if isLower c then char_of ((of_char c :: nat) - 32) else c)"

definition toUpperCase :: "string \<Rightarrow> string" where
  "toUpperCase s = map upperChar s"

text \<open>\<open>s.padStart(n, c)\<close> and \<open>s.padEnd(n, c)\<close> with a one-character filler.\<close>

definition padStart :: "string \<Rightarrow> nat \<Rightarrow> char \<Rightarrow> string" where
  "padStart s n c = replicate (n - length s) c @ s"

definition padEnd :: "string \<Rightarrow> nat \<Rightarrow> char \<Rightarrow> string" where
  "padEnd s n c = s @ replicate (n - length s) c"

text \<open>\<open>s.split(sep)\<close> with a one-character separator: never the empty list.\<close>

primrec split :: "string \<Rightarrow> char \<Rightarrow> string list" where
  "split [] sep = [[]]"
| "split (x # xs) sep =
     (if x = sep then [] # split xs sep
      else (case split xs sep of [] \<Rightarrow> [[x]] | w # ws \<Rightarrow> (x # w) # ws))"

section \<open>Numbers\<close>

text \<open>
  Stock quantities and sequence numbers are integer-valued JavaScript numbers, modelled
  as \<open>int\<close>. The program computes with doubles, whose sums and differences of
  integers are exact as long as no value exceeds \<open>2\<^sup>5\<^sup>3\<close> in size; statements about
  arbitrary quantities carry that bound. \<open>parseInt\<close> can also produce \<open>NaN\<close>, which
  then flows into the sequence arithmetic, so sequence numbers carry that value too.
\<close>

datatype jsnum = Num int | NaN

definition digitChar :: "nat \<Rightarrow> char" where
  "digitChar d = char_of (48 + d)"

fun natToString :: "nat \<Rightarrow> string" where
  "natToString n = (if n < 10 then [digitChar n] else natToString (n div 10) @ [digitChar (n mod 10)])"

declare natToString.simps [simp del]

definition intToString :: "int \<Rightarrow> string" where
  "intToString i = (if i < 0 then CHR ''-'' # natToString (nat (- i)) else natToString (nat i))"

fun numToString :: "jsnum \<Rightarrow> string" where
  "numToString (Num i) = intToString i"
| "numToString NaN = ''NaN''"

text \<open>
  Any other number is an IEEE 754 double: a rational \<open>m \<times> 2\<^sup>e\<close> with
  \<open>\<bar>m\<bar> < 2\<^sup>5\<^sup>3\<close> and \<open>-1074 \<le> e \<le> 971\<close>, one of the two infinities, or \<open>NaN\<close>
  (the sign of zero is not kept).
\<close>

datatype double = Finite rat | PlusInfinity | MinusInfinity | NotANumber

section \<open>Errors\<close>

text \<open>
  \<open>Error\<close> is the built-in JavaScript error with its message, and \<open>ErrorReceived\<close>
  the same error with a message that ends in a number printed by a template literal,
  kept as the number. The other constructors are the classes under \<open>domain/errors\<close>,
  with their constructor arguments.
\<close>

datatype error =
    Error string
  | ErrorReceived string double
  | InvalidProductDataError string "string option" "jsnum option"
  | ProductNotFoundError string string
  | DuplicateProductCodeError string string
  | InsufficientStockError string int int

definition forNegativeValue :: "string \<Rightarrow> int \<Rightarrow> error" where
  "forNegativeValue field v =
     InvalidProductDataError (field @ '' cannot be negative. Received: '' @ intToString v)
       (Some field) (Some (Num v))"

fun isInvalidProductDataError :: "error \<Rightarrow> bool" where
  "isInvalidProductDataError (InvalidProductDataError m f v) = True"
| "isInvalidProductDataError e = False"

fun isInsufficientStockError :: "error \<Rightarrow> bool" where
  "isInsufficientStockError (InsufficientStockError p r a) = True"
| "isInsufficientStockError e = False"

fun isBuiltinError :: "error \<Rightarrow> bool" where
  "isBuiltinError (Error m) = True"
| "isBuiltinError (ErrorReceived m x) = True"
| "isBuiltinError e = False"

section \<open>The Product entity\<close>

text \<open>
  \<open>IProductSchema\<close>. A product's price is a finite number, which the entity compares
  and prints but never computes with; dates are points on a discrete time line.
\<close>

record Product =
  id :: string
  name :: string
  description :: string
  price :: real
  stock :: int
  sku :: string
  categoryId :: string
  isActive :: bool
  createdAt :: nat
  updatedAt :: nat

text \<open>
  Every operation that calls \<open>new Date()\<close> takes the value of that call as its
  argument \<open>now\<close>.
\<close>

definition Product_create ::
  "string \<Rightarrow> string \<Rightarrow> string \<Rightarrow> real \<Rightarrow> int \<Rightarrow> string \<Rightarrow> string \<Rightarrow> nat \<Rightarrow> error + Product" where
  "Product_create pid nm descr pr st sk cat now =
     (if trim nm = [] then Inl (Error ''Product name cannot be empty'')
      else if pr < 0 then Inl (Error ''Product price cannot be negative'')
      else if st < 0 then Inl (Error ''Product stock cannot be negative'')
      else if trim sk = [] then Inl (Error ''Product SKU cannot be empty'')
      else Inr \<lparr> id = pid, name = trim nm, description = trim descr, price = pr, stock = st,
                 sku = toUpperCase (trim sk), categoryId = cat, isActive = True,
                 createdAt = now, updatedAt = now \<rparr>)"

definition updateName :: "Product \<Rightarrow> string \<Rightarrow> nat \<Rightarrow> error + Product" where
  "updateName p newName now =
     (if trim newName = [] then Inl (Error ''Product name cannot be empty'')
      else Inr (p\<lparr>name := trim newName, updatedAt := now\<rparr>))"

definition updateDescription :: "Product \<Rightarrow> string \<Rightarrow> nat \<Rightarrow> error + Product" where
  "updateDescription p newDescription now =
     Inr (p\<lparr>description := trim newDescription, updatedAt := now\<rparr>)"

definition updatePrice :: "Product \<Rightarrow> real \<Rightarrow> nat \<Rightarrow> error + Product" where
  "updatePrice p newPrice now =
     (if newPrice < 0 then Inl (Error ''Product price cannot be negative'')
      else Inr (p\<lparr>price := newPrice, updatedAt := now\<rparr>))"

definition updateStock :: "Product \<Rightarrow> int \<Rightarrow> nat \<Rightarrow> error + Product" where
  "updateStock p newStock now =
     (if newStock < 0 then Inl (Error ''Product stock cannot be negative'')
      else Inr (p\<lparr>stock := newStock, updatedAt := now\<rparr>))"

definition incrementStock :: "Product \<Rightarrow> int \<Rightarrow> nat \<Rightarrow> error + Product" where
  "incrementStock p amount now =
     (if amount \<le> 0 then Inl (Error ''Stock increment amount must be positive'')
      else updateStock p (stock p + amount) now)"

definition decrementStock :: "Product \<Rightarrow> int \<Rightarrow> nat \<Rightarrow> error + Product" where
  "decrementStock p amount now =
     (if amount \<le> 0 then Inl (Error ''Stock decrement amount must be positive'')
      else let newStock = stock p - amount in
        if newStock < 0 then Inl (Error ''Insufficient stock'')
        else updateStock p newStock now)"

definition updateCategory :: "Product \<Rightarrow> string \<Rightarrow> nat \<Rightarrow> error + Product" where
  "updateCategory p newCategoryId now =
     (if trim newCategoryId = [] then Inl (Error ''Category ID cannot be empty'')
      else Inr (p\<lparr>categoryId := trim newCategoryId, updatedAt := now\<rparr>))"


definition toFixed2 :: "real \<Rightarrow> string" where
  \<comment> \<open>\<open>x.toFixed(2)\<close> for \<open>\<bar>x\<bar> < 1e21\<close>: the nearest multiple of 0.01, the larger on a tie.
      From \<open>1e21\<close> on the program prints the exponent notation, which is not modelled.\<close>
  "toFixed2 x =
     (let n = nat \<lfloor>\<bar>x\<bar> * 100 + 1 / 2\<rfloor> in
      (if x < 0 then ''-'' else []) @ natToString (n div 100) @ ''.'' @
        padStart (natToString (n mod 100)) 2 CHR ''0'')"

definition getFormattedPrice :: "Product \<Rightarrow> string" where
  "getFormattedPrice p = ''$'' @ toFixed2 (price p)"

definition isInStock :: "Product \<Rightarrow> bool" where
  "isInStock p = (stock p > 0)"

definition isLowStock :: "Product \<Rightarrow> int \<Rightarrow> bool" where
  "isLowStock p threshold = (stock p > 0 \<and> stock p \<le> threshold)"

subsection \<open>Instances\<close>

text \<open>
  A \<open>Product\<close> instance is a reference into a store of schema objects;
  \<open>new Product(schema)\<close> takes the next unused reference. The methods above compute
  the schema of the result; here they are given the receiver \<open>this\<close> and return the
  reference of the instance they construct.
\<close>

record heap =
  objs :: "nat \<Rightarrow> Product"
  nextRef :: nat

definition new_Product :: "heap \<Rightarrow> Product \<Rightarrow> heap \<times> nat" where
  "new_Product h e = (h\<lparr>objs := (objs h)(nextRef h := e), nextRef := Suc (nextRef h)\<rparr>, nextRef h)"

definition constructed :: "heap \<Rightarrow> error + Product \<Rightarrow> heap \<times> (error + nat)" where
  "constructed h r =
     (case r of Inl e \<Rightarrow> (h, Inl e)
      | Inr e' \<Rightarrow> (let (h', r') = new_Product h e' in (h', Inr r')))"

definition incrementStock_on :: "heap \<Rightarrow> nat \<Rightarrow> int \<Rightarrow> nat \<Rightarrow> heap \<times> (error + nat)" where
  "incrementStock_on h this amount now = constructed h (incrementStock (objs h this) amount now)"

section \<open>The repository\<close>

text \<open>
  The world a use case runs in: the rows of the \<open>products\<close> table, the calls made on
  the repository port so far, and the two sources the code reads from its
  environment, the clock (\<open>new Date()\<close>) and \<open>crypto.randomUUID()\<close>. Each source is a
  sequence of the values its successive calls return, with the number of calls made.
\<close>

datatype call =
    FindById string
  | ExistsBySku string
  | Create Product
  | Update string Product
  | UpdateStock string int

record World =
  rows :: "Product list"
  calls :: "call list"
  dates :: "nat \<Rightarrow> nat"
  ticks :: nat
  uuids :: "nat \<Rightarrow> string"
  drawn :: nat

definition new_Date :: "World \<Rightarrow> nat \<times> World" where
  "new_Date w = (dates w (ticks w), w\<lparr>ticks := Suc (ticks w)\<rparr>)"

definition randomUUID :: "World \<Rightarrow> string \<times> World" where
  "randomUUID w = (uuids w (drawn w), w\<lparr>drawn := Suc (drawn w)\<rparr>)"

definition called :: "call \<Rightarrow> World \<Rightarrow> World" where
  "called c w = w\<lparr>calls := calls w @ [c]\<rparr>"

definition findOne :: "World \<Rightarrow> string \<Rightarrow> Product option" where
  "findOne w pid = find (\<lambda>r. id r = pid) (rows w)"

definition repo_findById :: "string \<Rightarrow> World \<Rightarrow> Product option \<times> World" where
  "repo_findById pid w = (findOne w pid, called (FindById pid) w)"

definition repo_existsBySku :: "string \<Rightarrow> World \<Rightarrow> bool \<times> World" where
  "repo_existsBySku s w =
     (length (filter (\<lambda>r. sku r = toUpperCase s) (rows w)) > 0, called (ExistsBySku s) w)"

definition repo_create :: "Product \<Rightarrow> World \<Rightarrow> (error + Product) \<times> World" where
  \<comment> \<open>\<open>save\<close> inserts a row, or updates the row that has the primary key already; it
      fails when another row holds the \<open>sku\<close>, a unique column. The date columns are
      filled in by the store.\<close>
  "repo_create p w0 =
     (let w = called (Create p) w0 in
      if list_ex (\<lambda>r. id r \<noteq> id p \<and> sku r = sku p) (rows w)
      then (Inl (Error ''QueryFailedError''), w)
      else let (now, w') = new_Date w in
        case findOne w' (id p) of
          None \<Rightarrow>
            (let saved = p\<lparr>createdAt := now, updatedAt := now\<rparr>
             in (Inr saved, w'\<lparr>rows := rows w' @ [saved]\<rparr>))
        | Some old \<Rightarrow>
            (let saved = p\<lparr>createdAt := createdAt old, updatedAt := now\<rparr>
             in (Inr saved, w'\<lparr>rows := map (\<lambda>r. if id r = id p then saved else r) (rows w')\<rparr>)))"

definition repo_update :: "string \<Rightarrow> Product \<Rightarrow> World \<Rightarrow> (error + Product) \<times> World" where
  "repo_update pid p w0 =
     (let (now, w) = new_Date (called (Update pid p) w0);
          w' = w\<lparr>rows := map (\<lambda>r. if id r = pid
                        then r\<lparr>name := name p, description := description p, price := price p,
                               stock := stock p, categoryId := categoryId p,
                               isActive := isActive p, updatedAt := now\<rparr>
                        else r) (rows w)\<rparr>
      in case findOne w' pid of
           None \<Rightarrow> (Inl (Error (''Product with id '' @ pid @ '' not found after update'')), w')
         | Some updated \<Rightarrow> (Inr updated, w'))"

definition repo_updateStock :: "string \<Rightarrow> int \<Rightarrow> World \<Rightarrow> (error + Product) \<times> World" where
  "repo_updateStock pid newStock w0 =
     (let (now, w) = new_Date (called (UpdateStock pid newStock) w0);
          w' = w\<lparr>rows := map (\<lambda>r. if id r = pid then r\<lparr>stock := newStock, updatedAt := now\<rparr>
                                   else r) (rows w)\<rparr>
      in case findOne w' pid of
           None \<Rightarrow> (Inl (Error (''Product with id '' @ pid @ '' not found after stock update'')), w')
         | Some updated \<Rightarrow> (Inr updated, w'))"


section \<open>The use cases\<close>

text \<open>
  \<open>IProductResponseDTO\<close>, with the two dates left as points in time
  (\<open>toISOString\<close> only prints them).
\<close>

record IProductResponseDTO =
  id_dto :: string
  name_dto :: string
  description_dto :: string
  sku_dto :: string
  price_dto :: real
  formattedPrice_dto :: string
  stock_dto :: int
  categoryId_dto :: string
  isActive_dto :: bool
  isInStock_dto :: bool
  isLowStock_dto :: bool
  createdAt_dto :: nat
  updatedAt_dto :: nat

definition mapToDTO :: "Product \<Rightarrow> IProductResponseDTO" where
  "mapToDTO product =
     \<lparr> id_dto = id product, name_dto = name product, description_dto = description product,
       sku_dto = sku product, price_dto = price product,
       formattedPrice_dto = getFormattedPrice product, stock_dto = stock product,
       categoryId_dto = categoryId product, isActive_dto = isActive product,
       isInStock_dto = isInStock product, isLowStock_dto = isLowStock product 10,
       createdAt_dto = createdAt product, updatedAt_dto = updatedAt product \<rparr>"

text \<open>
  An entity method reads the clock once, after its checks have passed: \<open>timed f\<close> runs
  the method \<open>f\<close> in the world, and the clock moves only when \<open>f\<close> succeeds.
\<close>

definition timed :: "(nat \<Rightarrow> error + Product) \<Rightarrow> World \<Rightarrow> (error + Product) \<times> World" where
  "timed f w =
     (case f (dates w (ticks w)) of
        Inl e \<Rightarrow> (Inl e, w)
      | Inr p \<Rightarrow> (Inr p, snd (new_Date w)))"

subsection \<open>UpdateStock\<close>

datatype operation = increment | decrement

record IUpdateStockInput =
  productId :: string
  quantity :: int
  operation :: operation

definition UpdateStockUseCase_execute ::
  "IUpdateStockInput \<Rightarrow> World \<Rightarrow> (error + IProductResponseDTO) \<times> World" where
  "UpdateStockUseCase_execute input w0 =
     (let (found, w1) = repo_findById (productId input) w0 in
      case found of
        None \<Rightarrow> (Inl (ProductNotFoundError (productId input) ''id''), w1)
      | Some product \<Rightarrow>
          if quantity input \<le> 0
          then (Inl (forNegativeValue ''quantity'' (quantity input)), w1)
          else
            let (r, w2) =
                  (if operation input = increment
                   then timed (incrementStock product (quantity input)) w1
                   else timed (decrementStock product (quantity input)) w1)
            in case r of
                 Inl e \<Rightarrow> (if isInsufficientStockError e then (Inl e, w2) else (Inl e, w2))
               | Inr updatedProduct \<Rightarrow>
                   (let (s, w3) = repo_updateStock (productId input) (stock updatedProduct) w2
                    in case s of
                         Inl e \<Rightarrow> (Inl e, w3)
                       | Inr savedProduct \<Rightarrow> (Inr (mapToDTO savedProduct), w3)))"

subsection \<open>CreateProduct\<close>

record ICreateProductDTO =
  name_in :: string
  description_in :: string
  price_in :: real
  stock_in :: int
  sku_in :: string
  categoryId_in :: string

definition CreateProductUseCase_execute ::
  "ICreateProductDTO \<Rightarrow> World \<Rightarrow> (error + IProductResponseDTO) \<times> World" where
  "CreateProductUseCase_execute input w0 =
     (let (skuExists, w1) = repo_existsBySku (sku_in input) w0 in
      if skuExists then (Inl (DuplicateProductCodeError (sku_in input) ''sku''), w1)
      else
        let (uuid, w2) = randomUUID w1;
            (r, w3) = timed (Product_create uuid (name_in input) (description_in input)
                               (price_in input) (stock_in input) (sku_in input)
                               (categoryId_in input)) w2
        in case r of
             Inl e \<Rightarrow> (Inl e, w3)
           | Inr product \<Rightarrow>
               (let (s, w4) = repo_create product w3
                in case s of
                     Inl e \<Rightarrow> (Inl e, w4)
                   | Inr savedProduct \<Rightarrow> (Inr (mapToDTO savedProduct), w4)))"

subsection \<open>UpdateProduct\<close>

text \<open>\<open>IUpdateProductDTO\<close>: a field that is \<open>undefined\<close> is \<open>None\<close>.\<close>

record IUpdateProductDTO =
  name_upd :: "string option"
  description_upd :: "string option"
  price_upd :: "real option"
  stock_upd :: "int option"
  categoryId_upd :: "string option"
  isActive_upd :: "bool option"

record IUpdateProductInput =
  id_upd :: string
  data :: IUpdateProductDTO

text \<open>
  One step \<open>if (field !== undefined) updatedProduct = updatedProduct.m(field)\<close> of the
  chain; an exception thrown by an earlier step skips the later ones.
\<close>

definition applyIfPresent ::
  "'a option \<Rightarrow> (Product \<Rightarrow> 'a \<Rightarrow> nat \<Rightarrow> error + Product) \<Rightarrow>
   (error + Product) \<times> World \<Rightarrow> (error + Product) \<times> World" where
  "applyIfPresent field m rw =
     (case rw of
        (Inl e, w) \<Rightarrow> (Inl e, w)
      | (Inr updatedProduct, w) \<Rightarrow>
          (case field of
             None \<Rightarrow> (Inr updatedProduct, w)
           | Some v \<Rightarrow> timed (m updatedProduct v) w))"

definition UpdateProductUseCase_execute ::
  "IUpdateProductInput \<Rightarrow> World \<Rightarrow> (error + IProductResponseDTO) \<times> World" where
  "UpdateProductUseCase_execute input w0 =
     (let (found, w1) = repo_findById (id_upd input) w0 in
      case found of
        None \<Rightarrow> (Inl (ProductNotFoundError (id_upd input) ''id''), w1)
      | Some existingProduct \<Rightarrow>
          (let (r, w2) =
                 applyIfPresent (categoryId_upd (data input)) updateCategory
                   (applyIfPresent (stock_upd (data input)) updateStock
                     (applyIfPresent (price_upd (data input)) updatePrice
                       (applyIfPresent (description_upd (data input)) updateDescription
                         (applyIfPresent (name_upd (data input)) updateName
                           (Inr existingProduct, w1)))))
           in case r of
                Inl e \<Rightarrow> (Inl e, w2)
              | Inr updatedProduct \<Rightarrow>
                  (let (s, w3) = repo_update (id_upd input) updatedProduct w2
                   in case s of
                        Inl e \<Rightarrow> (Inl e, w3)
                      | Inr savedProduct \<Rightarrow> (Inr (mapToDTO savedProduct), w3))))"

section \<open>The ProductCode value object\<close>

record ProductCode =
  code :: string

definition isAZ09 :: "char \<Rightarrow> bool" where
  \<comment> \<open>the character class \<open>[A-Z0-9]\<close>\<close>
  "isAZ09 c = (isUpper c \<or> isDigit c)"

definition PREFIX_PATTERN :: "string \<Rightarrow> bool" where
  \<comment> \<open>\<open>/^[A-Z0-9]{3,4}$/\<close>\<close>
  "PREFIX_PATTERN s = (list_all isAZ09 s \<and> 3 \<le> length s \<and> length s \<le> 4)"

definition SUFFIX_PATTERN :: "string \<Rightarrow> bool" where
  \<comment> \<open>\<open>/^[A-Z0-9]{3,6}$/\<close>\<close>
  "SUFFIX_PATTERN s = (list_all isAZ09 s \<and> 3 \<le> length s \<and> length s \<le> 6)"

definition CODE_PATTERN :: "string \<Rightarrow> bool" where
  \<comment> \<open>\<open>/^[A-Z0-9]{3,4}-[A-Z0-9]{3,6}$/\<close>: the hyphen is outside the class, so the prefix is
      the longest run of class characters the string starts with.\<close>
  "CODE_PATTERN s =
     (PREFIX_PATTERN (takeWhile isAZ09 s) \<and>
      (case dropWhile isAZ09 s of
         [] \<Rightarrow> False
       | c # t \<Rightarrow> c = CHR ''-'' \<and> SUFFIX_PATTERN t))"

definition MIN_LENGTH :: nat where
  "MIN_LENGTH = 7"

definition MAX_LENGTH :: nat where
  "MAX_LENGTH = 11"

definition ProductCode_create :: "string \<Rightarrow> error + ProductCode" where
  "ProductCode_create c =
     (let normalizedCode = toUpperCase (trim c) in
      if length normalizedCode < MIN_LENGTH
      then Inl (Error (''Product code is too short. Minimum length: '' @ natToString MIN_LENGTH))
      else if length normalizedCode > MAX_LENGTH
      then Inl (Error (''Product code is too long. Maximum length: '' @ natToString MAX_LENGTH))
      else if \<not> CODE_PATTERN normalizedCode
      then Inl (Error (''Invalid product code format. Expected format: XXX-XXXX or XXXX-XXXXXX (alphanumeric). Received: '' @ c))
      else Inr \<lparr> code = normalizedCode \<rparr>)"

definition createFromParts :: "string \<Rightarrow> string \<Rightarrow> error + ProductCode" where
  "createFromParts prefix suffix =
     (let normalizedPrefix = toUpperCase (trim prefix);
          normalizedSuffix = toUpperCase (trim suffix) in
      if \<not> PREFIX_PATTERN normalizedPrefix
      then Inl (Error (''Invalid prefix format. Expected 3-4 alphanumeric characters. Received: '' @ prefix))
      else if \<not> SUFFIX_PATTERN normalizedSuffix
      then Inl (Error (''Invalid suffix format. Expected 3-6 alphanumeric characters. Received: '' @ suffix))
      else Inr \<lparr> code = normalizedPrefix @ ''-'' @ normalizedSuffix \<rparr>)"

definition generatePrefix :: "string \<Rightarrow> string" where
  "generatePrefix category =
     (let sanitized = filter isAZ09 category in
      if length sanitized = 0 then ''PROD''
      else if length sanitized \<ge> 4 then take 4 sanitized
      else padEnd sanitized 4 CHR ''X'')"

text \<open>Comparisons of a number with a constant: every comparison with \<open>NaN\<close> is false.\<close>

fun lessThan :: "jsnum \<Rightarrow> int \<Rightarrow> bool" where
  "lessThan (Num i) k = (i < k)"
| "lessThan NaN k = False"

fun greaterThan :: "jsnum \<Rightarrow> int \<Rightarrow> bool" where
  "greaterThan (Num i) k = (i > k)"
| "greaterThan NaN k = False"

fun plus :: "jsnum \<Rightarrow> int \<Rightarrow> jsnum" where
  "plus (Num i) k = Num (i + k)"
| "plus NaN k = NaN"

fun minus :: "jsnum \<Rightarrow> jsnum \<Rightarrow> jsnum" where
  "minus (Num i) (Num j) = Num (i - j)"
| "minus a b = NaN"

fun absEquals :: "jsnum \<Rightarrow> int \<Rightarrow> bool" where
  \<comment> \<open>\<open>Math.abs(x) === k\<close>\<close>
  "absEquals (Num i) k = (\<bar>i\<bar> = k)"
| "absEquals NaN k = False"

definition generate :: "string \<Rightarrow> jsnum \<Rightarrow> error + ProductCode" where
  "generate category sequence =
     (if trim category = [] then Inl (Error ''Category cannot be empty'')
      else if lessThan sequence 0 then Inl (Error ''Sequence number cannot be negative'')
      else if greaterThan sequence 999999 then Inl (Error ''Sequence number cannot exceed 999999'')
      else
        let normalizedCategory = toUpperCase (trim category);
            prefix = generatePrefix normalizedCategory;
            suffix = padStart (numToString sequence) 6 CHR ''0''
        in createFromParts prefix suffix)"

definition getPrefix :: "ProductCode \<Rightarrow> string" where
  \<comment> \<open>\<open>split('-')[0]\<close>; \<open>split\<close> never returns the empty list\<close>
  "getPrefix pc = (case split (code pc) CHR ''-'' of [] \<Rightarrow> [] | x # xs \<Rightarrow> x)"

definition getSuffix :: "ProductCode \<Rightarrow> string option" where
  \<comment> \<open>\<open>split('-')[1]\<close>, \<open>None\<close> for \<open>undefined\<close>\<close>
  "getSuffix pc = (case split (code pc) CHR ''-'' of x # y # ys \<Rightarrow> Some y | _ \<Rightarrow> None)"

definition digitsValue :: "string \<Rightarrow> int" where
  "digitsValue ds = foldl (\<lambda>acc c. 10 * acc + (int (of_char c) - 48)) 0 ds"

definition parseInt :: "string option \<Rightarrow> jsnum" where
  \<comment> \<open>\<open>parseInt(s, 10)\<close>: leading white space, an optional sign, then the longest run of
      decimal digits; \<open>NaN\<close> when there is none (as for \<open>undefined\<close>)\<close>
  "parseInt so =
     (case so of
        None \<Rightarrow> NaN
      | Some s \<Rightarrow>
          (let t = trimStart s;
               negative = (t \<noteq> [] \<and> hd t = CHR ''-'');
               u = (if t \<noteq> [] \<and> (hd t = CHR ''-'' \<or> hd t = CHR ''+'') then tl t else t);
               ds = takeWhile isDigit u
           in if ds = [] then NaN
              else Num (if negative then - digitsValue ds else digitsValue ds)))"

definition getSequence :: "ProductCode \<Rightarrow> jsnum" where
  "getSequence pc = parseInt (getSuffix pc)"

definition isSequential :: "ProductCode \<Rightarrow> ProductCode \<Rightarrow> bool" where
  "isSequential this other =
     (if getPrefix this \<noteq> getPrefix other then False
      else absEquals (minus (getSequence this) (getSequence other)) 1)"

definition next_code :: "ProductCode \<Rightarrow> error + ProductCode" where
  "next_code this = generate (getPrefix this) (plus (getSequence this) 1)"

definition toString :: "ProductCode \<Rightarrow> string" where
  "toString pc = code pc"

section \<open>The Price value object\<close>

text \<open>
  A price amount is a double. \<open>fl\<close> rounds an exact result to the nearest double, to
  the even significand on a tie, and to an infinity from \<open>2\<^sup>1\<^sup>0\<^sup>2\<^sup>4 - 2\<^sup>9\<^sup>7\<^sup>0\<close> on.
\<close>

definition pow2 :: "int \<Rightarrow> rat" where
  "pow2 k = (if 0 \<le> k then 2 ^ nat k else 1 / 2 ^ nat (- k))"

definition ilog2 :: "rat \<Rightarrow> int" where
  \<comment> \<open>\<open>\<lfloor>log\<^sub>2 a\<rfloor>\<close> for \<open>a > 0\<close>, from the bit lengths of numerator and denominator\<close>
  "ilog2 a =
     (let (p, d) = quotient_of a;
          k = bitlen p - bitlen d
      in if pow2 k \<le> a then k else k - 1)"

definition roundHalfEven :: "rat \<Rightarrow> int" where
  "roundHalfEven x =
     (let f = \<lfloor>x\<rfloor>; r = x - of_int f in
      if r < 1 / 2 then f else if 1 / 2 < r then f + 1 else if even f then f else f + 1)"

definition fl :: "rat \<Rightarrow> double" where
  "fl q =
     (if q = 0 then Finite 0
      else
        let a = \<bar>q\<bar>;
            e = max (ilog2 a - 52) (- 1074);
            m = roundHalfEven (a / pow2 e);
            v = of_int m * pow2 e
        in if pow2 1024 \<le> v then (if q < 0 then MinusInfinity else PlusInfinity)
           else Finite (if q < 0 then - v else v))"

fun times_double :: "double \<Rightarrow> double \<Rightarrow> double" where
  "times_double (Finite a) (Finite b) = fl (a * b)"
| "times_double NotANumber y = NotANumber"
| "times_double x NotANumber = NotANumber"
| "times_double (Finite a) y =
     (if a = 0 then NotANumber else if (0 < a) = (y = PlusInfinity) then PlusInfinity else MinusInfinity)"
| "times_double x (Finite b) =
     (if b = 0 then NotANumber else if (0 < b) = (x = PlusInfinity) then PlusInfinity else MinusInfinity)"
| "times_double x y = (if x = y then PlusInfinity else MinusInfinity)"

fun divide_double :: "double \<Rightarrow> double \<Rightarrow> double" where
  "divide_double (Finite a) (Finite b) =
     (if b = 0 then (if a = 0 then NotANumber else if 0 < a then PlusInfinity else MinusInfinity)
      else fl (a / b))"
| "divide_double NotANumber y = NotANumber"
| "divide_double x NotANumber = NotANumber"
| "divide_double (Finite a) y = Finite 0"
| "divide_double x (Finite b) =
     (if (0 \<le> b) = (x = PlusInfinity) then PlusInfinity else MinusInfinity)"
| "divide_double x y = NotANumber"

fun Math_round :: "double \<Rightarrow> double" where
  \<comment> \<open>the nearest integer, the larger one on a tie\<close>
  "Math_round (Finite a) = Finite (of_int \<lfloor>a + 1 / 2\<rfloor>)"
| "Math_round x = x"

definition Math_pow10 :: "nat \<Rightarrow> double" where
  \<comment> \<open>\<open>Math.pow(10, n)\<close> for a natural number \<open>n\<close>\<close>
  "Math_pow10 n = fl (10 ^ n)"

fun isFinite :: "double \<Rightarrow> bool" where
  "isFinite (Finite a) = True"
| "isFinite x = False"

fun lessThan_double :: "double \<Rightarrow> double \<Rightarrow> bool" where
  "lessThan_double (Finite a) (Finite b) = (a < b)"
| "lessThan_double NotANumber y = False"
| "lessThan_double x NotANumber = False"
| "lessThan_double x PlusInfinity = (x \<noteq> PlusInfinity)"
| "lessThan_double MinusInfinity y = (y \<noteq> MinusInfinity)"
| "lessThan_double x y = False"

record Price =
  amount :: double
  currency :: string

definition SUPPORTED_CURRENCIES :: "string list" where
  "SUPPORTED_CURRENCIES = [''USD'', ''EUR'', ''GBP'', ''MXN'', ''CAD'', ''AUD'']"

definition MAX_DECIMALS :: nat where
  "MAX_DECIMALS = 2"

definition MIN_AMOUNT :: double where
  "MIN_AMOUNT = Finite 0"

fun join :: "string list \<Rightarrow> string \<Rightarrow> string" where
  "join [] sep = []"
| "join [x] sep = x"
| "join (x # xs) sep = x @ sep @ join xs sep"

definition roundToDecimals :: "double \<Rightarrow> nat \<Rightarrow> double" where
  "roundToDecimals v decimals =
     (let factor = Math_pow10 decimals in
      divide_double (Math_round (times_double v factor)) factor)"

text \<open>
  \<open>Price.create(amount, currency = 'USD')\<close>; \<open>None\<close> is the omitted argument. The two
  messages that end in the amount are \<open>ErrorReceived\<close> values, the text and the number
  the template prints after it.
\<close>

definition Price_create :: "double \<Rightarrow> string option \<Rightarrow> error + Price" where
  "Price_create a co =
     (let c = (case co of None \<Rightarrow> ''USD'' | Some c \<Rightarrow> c);
          normalizedCurrency = toUpperCase c in
      if normalizedCurrency \<notin> set SUPPORTED_CURRENCIES
      then Inl (Error (''Invalid currency: '' @ c @ ''. Supported currencies: '' @
                         join SUPPORTED_CURRENCIES '', ''))
      else if lessThan_double a MIN_AMOUNT
      then Inl (ErrorReceived ''Price amount cannot be negative. Received: '' a)
      else if \<not> isFinite a
      then Inl (ErrorReceived ''Price amount must be a valid number. Received: '' a)
      else Inr \<lparr> amount = roundToDecimals a MAX_DECIMALS, currency = normalizedCurrency \<rparr>)"

section \<open>Example data\<close>

text \<open>The product and the catalogue the concrete evaluations below run on.\<close>

definition mouse :: Product where
  "mouse = \<lparr> id = ''p1'', name = ''Mouse'', description = ''x'', price = 20, stock = 5,
             sku = ''MSE-001'', categoryId = ''electronics'', isActive = True,
             createdAt = 0, updatedAt = 0 \<rparr>"

definition shop :: World where
  "shop = \<lparr> rows = [mouse], calls = [], dates = (\<lambda>n. Suc n), ticks = 0,
            uuids = (\<lambda>n. ''p'' @ natToString (n + 2)), drawn = 0 \<rparr>"

definition store :: heap where
  "store = \<lparr> objs = (\<lambda>r. mouse), nextRef = 1 \<rparr>"

section \<open>Product: creation and stock\<close>

lemma trim_Nil [simp]: "trim [] = []"
  by (simp add: trim_def)

lemma Product_create_checks_in_order:
  "Product_create pid nm descr pr st sk cat now =
     (if trim nm = [] then Inl (Error ''Product name cannot be empty'')
      else if pr < 0 then Inl (Error ''Product price cannot be negative'')
      else if st < 0 then Inl (Error ''Product stock cannot be negative'')
      else if trim sk = [] then Inl (Error ''Product SKU cannot be empty'')
      else Inr \<lparr> id = pid, name = trim nm, description = trim descr, price = pr, stock = st,
                 sku = toUpperCase (trim sk), categoryId = cat, isActive = True,
                 createdAt = now, updatedAt = now \<rparr>)"
  by (simp add: Product_create_def)

lemma Product_create_error_is_generic:
  "Product_create pid nm descr pr st sk cat now = Inl e \<Longrightarrow> \<not> isInvalidProductDataError e"
  by (auto simp: Product_create_def split: if_splits)

text \<open>
  C3. \<open>Product.create\<close> is to check the name, the price, the stock and the SKU in
  that order and to raise \<open>InvalidProductData\<close> for the first check that fails. On an
  input that violates all four checks the name check is the one reported, but the
  error thrown is the built-in \<open>Error\<close>, not an \<open>InvalidProductDataError\<close>.
\<close>

theorem C3_create_throws_plain_Error:
  "Product_create ''p2'' ''  '' ''x'' (- 1) (- 1) '''' ''electronics'' 7
     = Inl (Error ''Product name cannot be empty'')
   \<and> \<not> isInvalidProductDataError (Error ''Product name cannot be empty'')"
  by code_simp

text \<open>
  C10. \<open>Product.create\<close> does not look at \<open>categoryId\<close>: whenever the name, price, stock
  and SKU pass their checks it succeeds and stores the category as given, the empty
  string included. \<open>updateCategory\<close> fails on an empty or white-space-only category and
  stores the trimmed value otherwise. The strings that are trimmed (name, SKU and the
  new category) are ASCII strings.
\<close>

theorem C10_category_checked_on_update_only:
  assumes "isAscii nm" and "isAscii sk" and "isAscii c"
    and "trim nm \<noteq> []" and "0 \<le> pr" and "0 \<le> st" and "trim sk \<noteq> []"
  shows "(\<exists>p. Product_create pid nm descr pr st sk cat now = Inr p \<and> categoryId p = cat)
       \<and> (\<exists>p. Product_create pid nm descr pr st sk [] now = Inr p \<and> categoryId p = [])
       \<and> updateCategory q c now' =
           (if trim c = [] then Inl (Error ''Category ID cannot be empty'')
            else Inr (q\<lparr>categoryId := trim c, updatedAt := now'\<rparr>))"
  using assms by (simp add: Product_create_def updateCategory_def)

theorem C10_category_checked_on_update_only_witness:
  "(\<exists>p. Product_create ''p2'' ''Mouse'' ''x'' 20 5 ''mse-001'' '' a '' 7 = Inr p
        \<and> categoryId p = '' a '')
   \<and> (\<exists>p. Product_create ''p2'' ''Mouse'' ''x'' 20 5 ''mse-001'' [] 7 = Inr p
        \<and> categoryId p = [])
   \<and> updateCategory mouse ''   '' 9 = Inl (Error ''Category ID cannot be empty'')
   \<and> updateCategory mouse '' toys '' 9 = Inr (mouse\<lparr>categoryId := ''toys'', updatedAt := 9\<rparr>)"
proof -
  have an: "isAscii ''Mouse''" and as: "isAscii ''mse-001''"
    and ab: "isAscii ''   ''" and at: "isAscii '' toys ''"
    and n: "trim ''Mouse'' \<noteq> []" and s: "trim ''mse-001'' \<noteq> []"
    and e: "trim ''   '' = []" and t: "trim '' toys '' = ''toys''"
    by code_simp+
  have p: "(0::real) \<le> 20" and k: "(0::int) \<le> 5" by simp_all
  show ?thesis
    using C10_category_checked_on_update_only [OF an as ab n p k s, of "''p2''" "''x''" "'' a ''" 7 mouse 9]
      C10_category_checked_on_update_only [OF an as at n p k s, of "''p2''" "''x''" "'' a ''" 7 mouse 9]
    by (simp add: e t)
qed

text \<open>
  C5. For a product instance whose stock \<open>S\<close> is a non-negative integer and an integer
  amount \<open>n > 0\<close> with \<open>S + n \<le> 2\<^sup>5\<^sup>3\<close> (where the program's sum of the two numbers is the
  exact one), \<open>incrementStock(n)\<close> returns a new instance, different from the receiver,
  whose stock is \<open>S + n\<close> and whose other fields except \<open>updatedAt\<close> are those of the
  receiver; every instance that existed before, the receiver included, is left as it
  was.
\<close>

theorem C5_incrementStock_new_instance:
  assumes "this < nextRef h" and "0 \<le> stock (objs h this)" and "0 < n"
    and "stock (objs h this) + n \<le> 2 ^ 53"
  shows "incrementStock (objs h this) n now
           = Inr ((objs h this)\<lparr>stock := stock (objs h this) + n, updatedAt := now\<rparr>)
       \<and> (\<exists>h' r. incrementStock_on h this n now = (h', Inr r)
           \<and> r \<noteq> this
           \<and> objs h' r = (objs h this)\<lparr>stock := stock (objs h this) + n, updatedAt := now\<rparr>
           \<and> (\<forall>r' < nextRef h. objs h' r' = objs h r')
           \<and> stock (objs h' this) = stock (objs h this))"
  using assms
  by (auto simp: incrementStock_on_def incrementStock_def updateStock_def constructed_def
      new_Product_def)

theorem C5_incrementStock_new_instance_witness:
  "incrementStock (objs store 0) 3 9
     = Inr ((objs store 0)\<lparr>stock := stock (objs store 0) + 3, updatedAt := 9\<rparr>)
   \<and> (\<exists>h' r. incrementStock_on store 0 3 9 = (h', Inr r)
           \<and> r \<noteq> 0
           \<and> objs h' r = (objs store 0)\<lparr>stock := stock (objs store 0) + 3, updatedAt := 9\<rparr>
           \<and> (\<forall>r' < nextRef store. objs h' r' = objs store r')
           \<and> stock (objs h' 0) = stock (objs store 0))"
proof -
  have a: "0 < nextRef store" and b: "0 \<le> stock (objs store 0)"
    and c: "stock (objs store 0) + 3 \<le> 2 ^ 53"
    by (simp_all add: store_def mouse_def)
  show ?thesis
    using C5_incrementStock_new_instance [OF a b _ c, of 9] by simp
qed

section \<open>Use cases: stock, update and creation\<close>

lemma decrementStock_beyond_stock:
  "0 < q \<Longrightarrow> stock p < q \<Longrightarrow> decrementStock p q now = Inl (Error ''Insufficient stock'')"
  by (simp add: decrementStock_def)

lemma UpdateStock_decrement_beyond_stock:
  assumes "findOne w (productId input) = Some p" and "operation input = decrement"
    and "0 < quantity input" and "stock p < quantity input"
  shows "UpdateStockUseCase_execute input w
           = (Inl (Error ''Insufficient stock''), called (FindById (productId input)) w)"
  using assms
  by (simp add: UpdateStockUseCase_execute_def repo_findById_def timed_def
      decrementStock_beyond_stock)

text \<open>
  C1. A decrement by more than the current stock must make the UpdateStock use case
  raise \<open>InsufficientStock\<close>, with no call of the repository's \<open>updateStock\<close>. With stock
  5 and a decrement of 10 the only repository call is \<open>findById\<close> and the stored rows
  are untouched, but the error raised is the built-in \<open>Error\<close> with the message
  \<open>Insufficient stock\<close>, not an \<open>InsufficientStockError\<close>.
\<close>

theorem C1_decrement_beyond_stock_throws_plain_Error:
  "fst (UpdateStockUseCase_execute \<lparr>productId = ''p1'', quantity = 10, operation = decrement\<rparr> shop)
     = Inl (Error ''Insufficient stock'')
   \<and> \<not> isInsufficientStockError (Error ''Insufficient stock'')
   \<and> calls (snd (UpdateStockUseCase_execute
                    \<lparr>productId = ''p1'', quantity = 10, operation = decrement\<rparr> shop))
       = [FindById ''p1'']
   \<and> rows (snd (UpdateStockUseCase_execute
                   \<lparr>productId = ''p1'', quantity = 10, operation = decrement\<rparr> shop))
       = rows shop"
proof -
  have "findOne shop ''p1'' = Some mouse"
    by (simp add: findOne_def shop_def mouse_def)
  moreover have "stock mouse < 10"
    by (simp add: mouse_def)
  ultimately have "UpdateStockUseCase_execute
      \<lparr>productId = ''p1'', quantity = 10, operation = decrement\<rparr> shop
      = (Inl (Error ''Insufficient stock''), called (FindById ''p1'') shop)"
    using UpdateStock_decrement_beyond_stock
      [of shop "\<lparr>productId = ''p1'', quantity = 10, operation = decrement\<rparr>" mouse]
    by simp
  then show ?thesis
    by (simp add: called_def shop_def)
qed

lemma UpdateProduct_never_reads_isActive:
  "UpdateProductUseCase_execute (input\<lparr>data := (data input)\<lparr>isActive_upd := x\<rparr>\<rparr>) w
     = UpdateProductUseCase_execute input w"
proof -
  let ?i = "input\<lparr>data := (data input)\<lparr>isActive_upd := x\<rparr>\<rparr>"
  have "id_upd ?i = id_upd input" and "name_upd (data ?i) = name_upd (data input)"
    and "description_upd (data ?i) = description_upd (data input)"
    and "price_upd (data ?i) = price_upd (data input)"
    and "stock_upd (data ?i) = stock_upd (data input)"
    and "categoryId_upd (data ?i) = categoryId_upd (data input)"
    by simp_all
  then show ?thesis
    by (simp only: UpdateProductUseCase_execute_def)
qed

text \<open>
  C2. The UpdateProduct use case applies the fields present in its input and leaves the
  others as they were; in particular a present \<open>isActive\<close> is applied. For an active
  product and the input \<open>{isActive: false}\<close> the use case succeeds, and both the
  product it returns and the stored row are still active: \<open>isActive\<close> is never read.
\<close>

theorem C2_isActive_is_not_applied:
  "map_sum (\<lambda>e. e) isActive_dto
     (fst (UpdateProductUseCase_execute
        \<lparr>id_upd = ''p1'',
         data = \<lparr>name_upd = None, description_upd = None, price_upd = None, stock_upd = None,
                 categoryId_upd = None, isActive_upd = Some False\<rparr>\<rparr> shop))
     = Inr True
   \<and> map isActive (rows (snd (UpdateProductUseCase_execute
        \<lparr>id_upd = ''p1'',
         data = \<lparr>name_upd = None, description_upd = None, price_upd = None, stock_upd = None,
                 categoryId_upd = None, isActive_upd = Some False\<rparr>\<rparr> shop)))
     = [True]"
  by code_simp

lemma CreateProduct_when_existsBySku:
  assumes "fst (repo_existsBySku (sku_in input) w)"
  shows "CreateProductUseCase_execute input w
           = (Inl (DuplicateProductCodeError (sku_in input) ''sku''),
              w\<lparr>calls := calls w @ [ExistsBySku (sku_in input)]\<rparr>)"
  using assms
  by (simp add: CreateProductUseCase_execute_def repo_existsBySku_def called_def)

text \<open>
  C4. A create input whose SKU already exists in the repository must make the
  CreateProduct use case raise \<open>DuplicateProductCode\<close> before any \<open>Product\<close> is
  constructed. Whenever \<open>existsBySku\<close> answers true it does
  (\<open>CreateProduct_when_existsBySku\<close>), but \<open>existsBySku\<close> compares the upper-cased input
  with the stored SKUs without trimming it, while \<open>Product.create\<close> stores the trimmed
  one. With \<open>MSE-001\<close> stored and the input SKU \<open>" mse-001 "\<close> the check answers false:
  an identifier is drawn, the product with the SKU \<open>MSE-001\<close> is constructed and handed
  to the repository's \<open>create\<close>, and the use case ends with the store's error on the
  unique column, not with \<open>DuplicateProductCode\<close>.
\<close>

theorem C4_padded_duplicate_sku_is_constructed:
  "\<not> fst (repo_existsBySku '' mse-001 '' shop)
   \<and> fst (CreateProductUseCase_execute
          \<lparr>name_in = ''Mouse'', description_in = ''x'', price_in = 20, stock_in = 5,
           sku_in = '' mse-001 '', categoryId_in = ''electronics''\<rparr> shop)
       = Inl (Error ''QueryFailedError'')
   \<and> drawn (snd (CreateProductUseCase_execute
          \<lparr>name_in = ''Mouse'', description_in = ''x'', price_in = 20, stock_in = 5,
           sku_in = '' mse-001 '', categoryId_in = ''electronics''\<rparr> shop)) = 1
   \<and> calls (snd (CreateProductUseCase_execute
          \<lparr>name_in = ''Mouse'', description_in = ''x'', price_in = 20, stock_in = 5,
           sku_in = '' mse-001 '', categoryId_in = ''electronics''\<rparr> shop))
       = [ExistsBySku '' mse-001 '',
          Create \<lparr>id = ''p2'', name = ''Mouse'', description = ''x'', price = 20, stock = 5,
                  sku = ''MSE-001'', categoryId = ''electronics'', isActive = True,
                  createdAt = 1, updatedAt = 1\<rparr>]"
  by code_simp


section \<open>ProductCode: patterns, generation and sequencing\<close>


lemma of_char_hyphen: "(of_char CHR ''-'' :: nat) = 45" by simp
lemma of_char_X: "(of_char CHR ''X'' :: nat) = 88" by simp

lemma isAZ09_not_ws: "isAZ09 c \<Longrightarrow> \<not> isWhiteSpace c"
  by (auto simp: isAZ09_def isUpper_def isDigit_def isWhiteSpace_def Let_def)

lemma isAZ09_upperChar: "isAZ09 c \<Longrightarrow> upperChar c = c"
  by (auto simp: isAZ09_def isUpper_def isDigit_def upperChar_def isLower_def Let_def)

lemma isAZ09_not_hyphen: "isAZ09 c \<Longrightarrow> c \<noteq> CHR ''-''"
  by (auto simp: isAZ09_def isUpper_def isDigit_def Let_def)

lemma isAZ09_not_plus: "isAZ09 c \<Longrightarrow> c \<noteq> CHR ''+''"
  by (auto simp: isAZ09_def isUpper_def isDigit_def Let_def)

lemma hyphen_not_ws: "\<not> isWhiteSpace CHR ''-''"
  by (simp add: isWhiteSpace_def)

lemma hyphen_upperChar: "upperChar CHR ''-'' = CHR ''-''"
  by (simp add: upperChar_def isLower_def)

lemma isDigit_isAZ09: "isDigit c \<Longrightarrow> isAZ09 c"
  by (simp add: isAZ09_def)

lemma isAZ09_X: "isAZ09 CHR ''X''"
  by (simp add: isAZ09_def isUpper_def)

lemma isDigit_zero: "isDigit CHR ''0''"
  by (simp add: isDigit_def)

lemma isDigit_digitChar: "d < 10 \<Longrightarrow> isDigit (digitChar d)"
  by (simp add: isDigit_def digitChar_def)

lemma dropWhile_none: "(\<And>x. x \<in> set xs \<Longrightarrow> \<not> P x) \<Longrightarrow> dropWhile P xs = xs"
  by (cases xs) auto

lemma trim_clean:
  assumes "list_all isAZ09 s"
  shows "trim s = s"
proof -
  have a: "\<And>x. x \<in> set s \<Longrightarrow> \<not> isWhiteSpace x"
    using assms by (auto simp: list_all_iff isAZ09_not_ws)
  then have "dropWhile isWhiteSpace s = s"
    by (rule dropWhile_none)
  moreover have "dropWhile isWhiteSpace (rev s) = rev s"
    by (rule dropWhile_none) (use a in auto)
  ultimately show ?thesis
    by (simp add: trim_def)
qed

lemma toUpperCase_clean: "list_all isAZ09 s \<Longrightarrow> toUpperCase s = s"
  by (simp add: toUpperCase_def list_all_iff isAZ09_upperChar map_idI)

lemma natToString_digits: "list_all isDigit (natToString n)"
proof (induction n rule: natToString.induct)
  case (1 n)
  show ?case
  proof (cases "n < 10")
    case True
    then show ?thesis by (simp add: natToString.simps [of n] isDigit_digitChar)
  next
    case False
    with 1 show ?thesis by (simp add: natToString.simps [of n] isDigit_digitChar)
  qed
qed

lemma length_natToString: "0 < k \<Longrightarrow> n < 10 ^ k \<Longrightarrow> length (natToString n) \<le> k"
proof (induction n arbitrary: k rule: natToString.induct)
  case (1 n)
  show ?case
  proof (cases "n < 10")
    case True
    with 1(2) show ?thesis by (simp add: natToString.simps [of n])
  next
    case False
    from False 1(3) have "1 < k" by (cases k; cases "k - 1") auto 
    then obtain j where k: "k = Suc j" and j: "0 < j" by (cases k) auto
    from 1(3) k have "n div 10 < 10 ^ j" by (simp add: less_mult_imp_div_less mult.commute)
    with 1(1) [OF False j] have "length (natToString (n div 10)) \<le> j" by simp
    with False k show ?thesis by (simp add: natToString.simps [of n])
  qed
qed

lemma natToString_nonempty: "natToString n \<noteq> []"
  by (simp add: natToString.simps [of n])

lemma split_no_sep: "sep \<notin> set s \<Longrightarrow> split s sep = [s]"
  by (induction s) auto

lemma split_at_sep: "sep \<notin> set p \<Longrightarrow> split (p @ sep # s) sep = p # split s sep"
  by (induction p) auto


lemma CODE_PATTERN_parts:
  assumes "CODE_PATTERN s"
  obtains p t where "s = p @ CHR ''-'' # t" and "PREFIX_PATTERN p" and "SUFFIX_PATTERN t"
proof -
  from assms obtain t where d: "dropWhile isAZ09 s = CHR ''-'' # t" and t: "SUFFIX_PATTERN t"
    and p: "PREFIX_PATTERN (takeWhile isAZ09 s)"
    by (auto simp: CODE_PATTERN_def split: list.splits)
  have "s = takeWhile isAZ09 s @ dropWhile isAZ09 s"
    by simp
  with d have "s = takeWhile isAZ09 s @ CHR ''-'' # t"
    by simp
  with p t that show thesis
    by blast
qed

lemma CODE_PATTERN_join:
  assumes "PREFIX_PATTERN p" and "SUFFIX_PATTERN t"
  shows "CODE_PATTERN (p @ CHR ''-'' # t)"
proof -
  have all: "\<And>x. x \<in> set p \<Longrightarrow> isAZ09 x"
    using assms(1) by (simp add: PREFIX_PATTERN_def list_all_iff)
  have h: "\<not> isAZ09 CHR ''-''"
    using isAZ09_not_hyphen by blast
  have "takeWhile isAZ09 (p @ CHR ''-'' # t) = p"
    using all h by (simp add: takeWhile_append2)
  moreover have "dropWhile isAZ09 (p @ CHR ''-'' # t) = CHR ''-'' # t"
    using all h by (simp add: dropWhile_append2)
  ultimately show ?thesis
    using assms by (simp add: CODE_PATTERN_def)
qed

lemma CODE_PATTERN_clean:
  assumes "CODE_PATTERN s"
  shows "trim s = s" and "toUpperCase s = s" and "MIN_LENGTH \<le> length s" and "length s \<le> MAX_LENGTH"
proof -
  from assms obtain p t where s: "s = p @ CHR ''-'' # t" and p: "PREFIX_PATTERN p"
    and t: "SUFFIX_PATTERN t"
    by (rule CODE_PATTERN_parts)
  have ws: "\<And>x. x \<in> set s \<Longrightarrow> \<not> isWhiteSpace x"
    using s p t hyphen_not_ws isAZ09_not_ws
    by (auto simp: PREFIX_PATTERN_def SUFFIX_PATTERN_def list_all_iff)
  have "dropWhile isWhiteSpace s = s"
    using ws by (rule dropWhile_none)
  moreover have "dropWhile isWhiteSpace (rev s) = rev s"
    by (rule dropWhile_none) (use ws in auto)
  ultimately show "trim s = s"
    by (simp add: trim_def)
  have "\<And>x. x \<in> set s \<Longrightarrow> upperChar x = x"
    using s p t hyphen_upperChar isAZ09_upperChar
    by (auto simp: PREFIX_PATTERN_def SUFFIX_PATTERN_def list_all_iff)
  then show "toUpperCase s = s"
    by (simp add: toUpperCase_def map_idI)
  show "MIN_LENGTH \<le> length s" and "length s \<le> MAX_LENGTH"
    using s p t by (simp_all add: PREFIX_PATTERN_def SUFFIX_PATTERN_def MIN_LENGTH_def MAX_LENGTH_def)
qed

lemma ProductCode_create_cases:
  "ProductCode_create c =
     (if CODE_PATTERN (toUpperCase (trim c)) then Inr \<lparr>code = toUpperCase (trim c)\<rparr>
      else Inl (Error
        (if length (toUpperCase (trim c)) < MIN_LENGTH
         then ''Product code is too short. Minimum length: 7''
         else if length (toUpperCase (trim c)) > MAX_LENGTH
         then ''Product code is too long. Maximum length: 11''
         else ''Invalid product code format. Expected format: XXX-XXXX or XXXX-XXXXXX (alphanumeric). Received: '' @ c)))"
proof -
  have seven: "natToString MIN_LENGTH = ''7''" and eleven: "natToString MAX_LENGTH = ''11''"
    by code_simp+
  show ?thesis
    using CODE_PATTERN_clean(3,4) [of "toUpperCase (trim c)"]
    by (auto simp: ProductCode_create_def Let_def seven eleven)
qed


lemma generatePrefix_pattern:
  "list_all isAZ09 (generatePrefix x) \<and> length (generatePrefix x) = 4"
proof -
  let ?s = "filter isAZ09 x"
  have s: "list_all isAZ09 ?s"
    by (simp add: list_all_iff)
  consider "length ?s = 0" | "4 \<le> length ?s" | "0 < length ?s" "length ?s < 4"
    by linarith
  then show ?thesis
  proof cases
    case 1
    have "list_all isAZ09 ''PROD''"
      by code_simp
    with 1 show ?thesis
      by (simp add: generatePrefix_def)
  next
    case 2
    have "list_all isAZ09 (take 4 ?s)"
      using s by (auto simp: list_all_iff dest: in_set_takeD)
    moreover from 2 have "?s \<noteq> []"
      by auto
    ultimately show ?thesis
      using 2 by (simp add: generatePrefix_def Let_def)
  next
    case 3
    have "list_all isAZ09 (?s @ replicate (4 - length ?s) CHR ''X'')"
      using s isAZ09_X by (auto simp: list_all_iff)
    with 3 show ?thesis
      by (simp add: generatePrefix_def Let_def padEnd_def)
  qed
qed

lemma padded_sequence:
  assumes "n < 1000000"
  shows "list_all isDigit (padStart (natToString n) 6 CHR ''0'')"
    and "length (padStart (natToString n) 6 CHR ''0'') = 6"
proof -
  have "n < 10 ^ 6"
    using assms by simp
  then have "length (natToString n) \<le> 6"
    by (intro length_natToString) simp_all
  then show "length (padStart (natToString n) 6 CHR ''0'') = 6"
    by (simp add: padStart_def)
  show "list_all isDigit (padStart (natToString n) 6 CHR ''0'')"
    using natToString_digits [of n] by (auto simp: padStart_def list_all_iff isDigit_zero)
qed

lemma createFromParts_clean:
  assumes "PREFIX_PATTERN p" and "SUFFIX_PATTERN t"
  shows "createFromParts p t = Inr \<lparr>code = p @ ''-'' @ t\<rparr>"
  using assms
  by (simp add: createFromParts_def Let_def trim_clean toUpperCase_clean PREFIX_PATTERN_def
      SUFFIX_PATTERN_def)

lemma generate_on_integers:
  "generate category (Num n) =
     (if trim category = [] then Inl (Error ''Category cannot be empty'')
      else if n < 0 then Inl (Error ''Sequence number cannot be negative'')
      else if n > 999999 then Inl (Error ''Sequence number cannot exceed 999999'')
      else Inr \<lparr>code = generatePrefix (toUpperCase (trim category)) @ ''-'' @
                        padStart (natToString (nat n)) 6 CHR ''0''\<rparr>)"
proof (cases "trim category \<noteq> [] \<and> 0 \<le> n \<and> n \<le> 999999")
  case True
  then have n: "nat n < 1000000"
    by linarith
  have p: "PREFIX_PATTERN (generatePrefix (toUpperCase (trim category)))"
    using generatePrefix_pattern [of "toUpperCase (trim category)"]
    by (simp add: PREFIX_PATTERN_def)
  have t: "SUFFIX_PATTERN (padStart (natToString (nat n)) 6 CHR ''0'')"
    using padded_sequence [OF n]
    by (auto simp: SUFFIX_PATTERN_def list_all_iff isDigit_isAZ09)
  from True show ?thesis
    by (simp add: generate_def Let_def intToString_def createFromParts_clean [OF p t])
next
  case False
  then show ?thesis
    by (auto simp: generate_def)
qed

lemma valid_code_parts:
  assumes "CODE_PATTERN (code c)"
  obtains p t where "code c = p @ CHR ''-'' # t" and "PREFIX_PATTERN p" and "SUFFIX_PATTERN t"
    and "getPrefix c = p" and "getSuffix c = Some t"
proof -
  from assms obtain p t where s: "code c = p @ CHR ''-'' # t" and p: "PREFIX_PATTERN p"
    and t: "SUFFIX_PATTERN t"
    by (rule CODE_PATTERN_parts)
  have np: "CHR ''-'' \<notin> set p" and nt: "CHR ''-'' \<notin> set t"
    using p t isAZ09_not_hyphen
    by (auto simp: PREFIX_PATTERN_def SUFFIX_PATTERN_def list_all_iff)
  have "split (code c) CHR ''-'' = [p, t]"
    by (simp add: s split_at_sep [OF np] split_no_sep [OF nt])
  then have "getPrefix c = p" and "getSuffix c = Some t"
    by (simp_all add: getPrefix_def getSuffix_def)
  with s p t that show thesis
    by blast
qed

lemma digitsValue_nonneg_aux:
  "0 \<le> acc \<Longrightarrow> list_all isDigit ds \<Longrightarrow>
     0 \<le> foldl (\<lambda>acc c. 10 * acc + (int (of_char c) - 48)) acc ds"
proof (induction ds arbitrary: acc)
  case Nil
  then show ?case by simp
next
  case (Cons d ds)
  from Cons.prems have "0 \<le> 10 * acc + (int (of_char d) - 48)"
    by (simp add: isDigit_def Let_def)
  with Cons show ?case
    by simp
qed

lemma parseInt_of_suffix:
  assumes "list_all isAZ09 t" and "parseInt (Some t) = Num k"
  shows "0 \<le> k"
proof -
  have ws: "\<And>x. x \<in> set t \<Longrightarrow> \<not> isWhiteSpace x"
    using assms(1) by (auto simp: list_all_iff isAZ09_not_ws)
  have tr: "trimStart t = t"
    unfolding trimStart_def using ws by (rule dropWhile_none)
  have sign: "\<not> (t \<noteq> [] \<and> (hd t = CHR ''-'' \<or> hd t = CHR ''+''))"
    using assms(1) isAZ09_not_hyphen isAZ09_not_plus
    by (cases t) (auto simp: list_all_iff)
  then have "parseInt (Some t) =
      (if takeWhile isDigit t = [] then NaN else Num (digitsValue (takeWhile isDigit t)))"
    by (auto simp: parseInt_def tr Let_def)
  with assms(2) have k: "k = digitsValue (takeWhile isDigit t)"
    by (simp split: if_splits)
  have "list_all isDigit (takeWhile isDigit t)"
    by (auto simp: list_all_iff dest: set_takeWhileD)
  then show ?thesis
    unfolding k digitsValue_def by (intro digitsValue_nonneg_aux) simp_all
qed

text \<open>
  C9. For a valid code whose prefix has three characters and whose suffix parses as a
  number \<open>k < 999999\<close>, \<open>next()\<close> succeeds with the code made of the prefix padded with
  \<open>X\<close> to four characters and the sequence \<open>k + 1\<close> on six digits. The prefix of that
  code is not the original prefix, so \<open>isSequential\<close> of the code and its successor is
  false.
\<close>

theorem C9_next_pads_short_prefix:
  assumes "CODE_PATTERN (code c)" and "length (getPrefix c) = 3"
    and "getSequence c = Num k" and "k < 999999"
  shows "\<exists>c'. next_code c = Inr c'
           \<and> code c' = getPrefix c @ ''X-'' @ padStart (natToString (nat (k + 1))) 6 CHR ''0''
           \<and> getPrefix c' = padEnd (getPrefix c) 4 CHR ''X''
           \<and> getPrefix c' \<noteq> getPrefix c
           \<and> \<not> isSequential c c'"
proof -
  from assms(1) obtain p t where p: "PREFIX_PATTERN p" and t: "SUFFIX_PATTERN t"
    and gp: "getPrefix c = p" and gs: "getSuffix c = Some t"
    by (rule valid_code_parts)
  from assms(2) gp have len: "length p = 3"
    by simp
  from p have all: "list_all isAZ09 p"
    by (simp add: PREFIX_PATTERN_def)
  from t assms(3) gs have k0: "0 \<le> k"
    using parseInt_of_suffix [of t k] by (simp add: getSequence_def SUFFIX_PATTERN_def)
  have ne: "trim p \<noteq> []"
    using len by (auto simp: trim_clean [OF all])
  have "filter isAZ09 p = p"
    using all by (simp add: list_all_iff)
  moreover from len have "p \<noteq> []"
    by auto
  ultimately have gen: "generatePrefix p = p @ ''X''"
    using len by (simp add: generatePrefix_def Let_def padEnd_def)
  let ?suffix = "padStart (natToString (nat (k + 1))) 6 CHR ''0''"
  let ?c' = "\<lparr>code = p @ ''X-'' @ ?suffix\<rparr>"
  have nx: "next_code c = Inr ?c'"
    using k0 assms(4) ne
    by (simp add: next_code_def gp assms(3) generate_on_integers trim_clean [OF all]
        toUpperCase_clean [OF all] gen)
  have n: "nat (k + 1) < 1000000"
    using k0 assms(4) by simp
  have hp: "CHR ''-'' \<notin> set (p @ ''X'')"
    using all isAZ09_not_hyphen by (auto simp: list_all_iff)
  have hs: "CHR ''-'' \<notin> set ?suffix"
    using padded_sequence(1) [OF n] isDigit_isAZ09 isAZ09_not_hyphen
    by (auto simp: list_all_iff)
  have "split (code ?c') CHR ''-'' = [p @ ''X'', ?suffix]"
    using split_at_sep [OF hp, of ?suffix] split_no_sep [OF hs] by simp
  then have gp': "getPrefix ?c' = p @ ''X''"
    by (simp add: getPrefix_def)
  show ?thesis
    using nx gp gp' len by (auto simp: padEnd_def isSequential_def)
qed

theorem C9_next_pads_short_prefix_witness:
  "CODE_PATTERN (code \<lparr>code = ''LAP-001''\<rparr>) \<and> length (getPrefix \<lparr>code = ''LAP-001''\<rparr>) = 3
   \<and> getSequence \<lparr>code = ''LAP-001''\<rparr> = Num 1
   \<and> (\<exists>c'. next_code \<lparr>code = ''LAP-001''\<rparr> = Inr c'
           \<and> code c' = ''LAPX-000002''
           \<and> getPrefix c' = ''LAPX''
           \<and> getPrefix c' \<noteq> ''LAP''
           \<and> \<not> isSequential \<lparr>code = ''LAP-001''\<rparr> c')"
proof -
  have a: "CODE_PATTERN (code \<lparr>code = ''LAP-001''\<rparr>)"
    and b: "length (getPrefix \<lparr>code = ''LAP-001''\<rparr>) = 3"
    and c: "getSequence \<lparr>code = ''LAP-001''\<rparr> = Num 1"
    and d: "getPrefix \<lparr>code = ''LAP-001''\<rparr> = ''LAP''"
    and e: "padStart (natToString (nat (1 + 1))) 6 CHR ''0'' = ''000002''"
    and f: "padEnd ''LAP'' 4 CHR ''X'' = ''LAPX''"
    by code_simp+
  have g: "(1::int) < 999999"
    by simp
  show ?thesis
    using a b c C9_next_pads_short_prefix [OF a b c g]
    by (simp only: d e f) simp
qed

text \<open>With a prefix of four characters the prefix is kept.\<close>

lemma next_keeps_long_prefix:
  assumes "CODE_PATTERN (code c)" and "length (getPrefix c) = 4"
    and "getSequence c = Num k" and "k < 999999"
  shows "\<exists>c'. next_code c = Inr c'
           \<and> code c' = getPrefix c @ ''-'' @ padStart (natToString (nat (k + 1))) 6 CHR ''0''
           \<and> getPrefix c' = getPrefix c"
proof -
  from assms(1) obtain p t where p: "PREFIX_PATTERN p" and t: "SUFFIX_PATTERN t"
    and gp: "getPrefix c = p" and gs: "getSuffix c = Some t"
    by (rule valid_code_parts)
  from assms(2) gp have len: "length p = 4"
    by simp
  from p have all: "list_all isAZ09 p"
    by (simp add: PREFIX_PATTERN_def)
  from t assms(3) gs have k0: "0 \<le> k"
    using parseInt_of_suffix [of t k] by (simp add: getSequence_def SUFFIX_PATTERN_def)
  have ne: "trim p \<noteq> []"
    using len by (auto simp: trim_clean [OF all])
  have "filter isAZ09 p = p"
    using all by (simp add: list_all_iff)
  moreover from len have "p \<noteq> []"
    by auto
  ultimately have gen: "generatePrefix p = p"
    using len by (simp add: generatePrefix_def Let_def)
  let ?suffix = "padStart (natToString (nat (k + 1))) 6 CHR ''0''"
  let ?c' = "\<lparr>code = p @ ''-'' @ ?suffix\<rparr>"
  have nx: "next_code c = Inr ?c'"
    using k0 assms(4) ne
    by (simp add: next_code_def gp assms(3) generate_on_integers trim_clean [OF all]
        toUpperCase_clean [OF all] gen)
  have n: "nat (k + 1) < 1000000"
    using k0 assms(4) by simp
  have hp: "CHR ''-'' \<notin> set p"
    using all isAZ09_not_hyphen by (auto simp: list_all_iff)
  have hs: "CHR ''-'' \<notin> set ?suffix"
    using padded_sequence(1) [OF n] isDigit_isAZ09 isAZ09_not_hyphen
    by (auto simp: list_all_iff)
  have "split (code ?c') CHR ''-'' = [p, ?suffix]"
    using split_at_sep [OF hp, of ?suffix] split_no_sep [OF hs] by simp
  then have "getPrefix ?c' = p"
    by (simp add: getPrefix_def)
  with nx gp show ?thesis
    by simp
qed

lemma generate_fails_on_integers_iff:
  "isl (generate category (Num n)) \<longleftrightarrow> trim category = [] \<or> n < 0 \<or> 999999 < n"
  by (simp add: generate_on_integers)

lemma generate_electronics_7:
  "generate ''electronics'' (Num 7) = Inr \<lparr>code = ''ELEC-000007''\<rparr>"
  by code_simp

text \<open>
  C6. \<open>ProductCode.generate\<close> must fail exactly when the category is blank or the
  sequence is outside \<open>[0, 999999]\<close>. On integers it does. \<open>NaN\<close> is in no interval, yet
  it passes both range checks (every comparison with it is false) and is printed into
  the suffix: \<open>generate("electronics", NaN)\<close> returns the code \<open>ELEC-000NAN\<close>. The code
  itself produces this input: the sequence of \<open>LAP-HP001\<close> is \<open>NaN\<close>, and its \<open>next()\<close> is
  \<open>LAPX-000NAN\<close>.
\<close>

theorem C6_generate_accepts_NaN:
  "generate ''electronics'' NaN = Inr \<lparr>code = ''ELEC-000NAN''\<rparr>
   \<and> getSequence \<lparr>code = ''LAP-HP001''\<rparr> = NaN
   \<and> next_code \<lparr>code = ''LAP-HP001''\<rparr> = Inr \<lparr>code = ''LAPX-000NAN''\<rparr>"
  by code_simp

text \<open>
  C8, as stated: \<open>ProductCode.create\<close> fails with the \<open>InvalidFormat\<close> error on a string
  that is too short. It fails, with the built-in \<open>Error\<close>.
\<close>

theorem C8_create_error_kind_counterexample:
  "ProductCode_create ''ab'' = Inl (Error ''Product code is too short. Minimum length: 7'')
   \<and> \<not> isInvalidProductDataError (Error ''Product code is too short. Minimum length: 7'')"
  by code_simp

text \<open>
  C8, amended. \<open>ProductCode.create\<close> trims and upper-cases its input, an ASCII string
  here. When the result is shorter than 7, longer than 11 or outside the pattern, it
  fails with the built-in \<open>Error\<close>. Otherwise it succeeds with a code whose
  \<open>toString()\<close> is the normalized input, and creating a code from that string again
  gives the same code. In particular \<open>create("lap-hp001")\<close> has the string
  \<open>LAP-HP001\<close>.
\<close>

theorem C8_create_normalises_and_round_trips:
  assumes "isAscii c"
  shows "(length (toUpperCase (trim c)) < 7 \<or> 11 < length (toUpperCase (trim c))
      \<or> \<not> CODE_PATTERN (toUpperCase (trim c))
     \<longrightarrow> (\<exists>m. ProductCode_create c = Inl (Error m)))
   \<and> (7 \<le> length (toUpperCase (trim c)) \<and> length (toUpperCase (trim c)) \<le> 11
      \<and> CODE_PATTERN (toUpperCase (trim c))
     \<longrightarrow> (\<exists>pc. ProductCode_create c = Inr pc \<and> toString pc = toUpperCase (trim c)
           \<and> ProductCode_create (toString pc) = Inr pc))
   \<and> (\<exists>pc. ProductCode_create ''lap-hp001'' = Inr pc \<and> toString pc = ''LAP-HP001'')"
proof -
  let ?n = "toUpperCase (trim c)"
  have bounds: "CODE_PATTERN ?n \<Longrightarrow> 7 \<le> length ?n \<and> length ?n \<le> 11"
    using CODE_PATTERN_clean(3,4) [of ?n] by (simp add: MIN_LENGTH_def MAX_LENGTH_def)
  have fails: "\<not> CODE_PATTERN ?n \<Longrightarrow> \<exists>m. ProductCode_create c = Inl (Error m)"
    by (simp add: ProductCode_create_cases)
  have accepts: "CODE_PATTERN ?n \<Longrightarrow> ProductCode_create c = Inr \<lparr>code = ?n\<rparr>"
    by (simp add: ProductCode_create_cases)
  have again: "CODE_PATTERN ?n \<Longrightarrow> ProductCode_create ?n = Inr \<lparr>code = ?n\<rparr>"
    by (simp add: ProductCode_create_cases CODE_PATTERN_clean(1,2))
  have "ProductCode_create ''lap-hp001'' = Inr \<lparr>code = ''LAP-HP001''\<rparr>"
    by code_simp
  then have example: "\<exists>pc. ProductCode_create ''lap-hp001'' = Inr pc \<and> toString pc = ''LAP-HP001''"
    by (simp add: toString_def)
  have rejected: "length ?n < 7 \<or> 11 < length ?n \<or> \<not> CODE_PATTERN ?n
      \<longrightarrow> (\<exists>m. ProductCode_create c = Inl (Error m))"
    using bounds fails by fastforce
  have accepted: "7 \<le> length ?n \<and> length ?n \<le> 11 \<and> CODE_PATTERN ?n
      \<longrightarrow> (\<exists>pc. ProductCode_create c = Inr pc \<and> toString pc = ?n
            \<and> ProductCode_create (toString pc) = Inr pc)"
    using accepts again by (auto simp: toString_def)
  from rejected accepted example show ?thesis
    by blast
qed

theorem C8_create_normalises_and_round_trips_witness:
  "(\<exists>m. ProductCode_create ''ab'' = Inl (Error m))
   \<and> (\<exists>pc. ProductCode_create '' lap-hp001 '' = Inr pc \<and> toString pc = ''LAP-HP001''
         \<and> ProductCode_create (toString pc) = Inr pc)"
proof -
  have a1: "isAscii ''ab''" and a2: "isAscii '' lap-hp001 ''"
    by code_simp+
  have ab: "toUpperCase (trim ''ab'') = ''AB''"
    and lap: "toUpperCase (trim '' lap-hp001 '') = ''LAP-HP001''"
    and ok: "CODE_PATTERN ''LAP-HP001''"
    by code_simp+
  show ?thesis
    using C8_create_normalises_and_round_trips [OF a1] C8_create_normalises_and_round_trips [OF a2]
    by (simp add: ab lap ok)
qed


section \<open>Price: creation\<close>

text \<open>Powers of two, the binary logarithm and the overflow of \<open>fl\<close>.\<close>

lemma pow2_pos: "0 < pow2 k"
  by (simp add: pow2_def)

lemma pow2_diff:
  assumes "0 \<le> i" and "0 \<le> j"
  shows "pow2 (i - j) = 2 ^ nat i / 2 ^ nat j"
proof (cases "j \<le> i")
  case True
  then have "nat i = nat (i - j) + nat j"
    using assms by simp
  then have "(2::rat) ^ nat i = 2 ^ nat (i - j) * 2 ^ nat j"
    by (simp add: power_add)
  with True show ?thesis
    by (simp add: pow2_def)
next
  case False
  then have "nat j = nat (j - i) + nat i"
    using assms by simp
  then have "(2::rat) ^ nat j = 2 ^ nat (j - i) * 2 ^ nat i"
    by (simp add: power_add)
  with False show ?thesis
    by (simp add: pow2_def)
qed

lemma pow2_split:
  assumes "i \<le> j"
  shows "pow2 j = pow2 (j - i) * pow2 i"
proof -
  define n where "n = (if i < 0 then - i else 0)"
  have "pow2 i = 2 ^ nat (i + n) / 2 ^ nat n"
    using pow2_diff [of "i + n" n] by (simp add: n_def)
  moreover have "pow2 j = 2 ^ nat (j + n) / 2 ^ nat n"
    using pow2_diff [of "j + n" n] assms by (simp add: n_def)
  moreover have "nat (j + n) = nat (j - i) + nat (i + n)"
  proof -
    have "0 \<le> j - i" and "0 \<le> i + n" and "j + n = (j - i) + (i + n)"
      using assms by (simp_all add: n_def)
    then show ?thesis
      by (metis nat_add_distrib)
  qed
  moreover have "pow2 (j - i) = 2 ^ nat (j - i)"
    using assms by (simp add: pow2_def)
  ultimately show ?thesis
    by (simp add: power_add)
qed

lemma pow2_mono:
  assumes "i \<le> j"
  shows "pow2 i \<le> pow2 j"
proof -
  have "1 \<le> pow2 (j - i)"
    using assms by (simp add: pow2_def)
  then show ?thesis
    using pow2_split [OF assms] pow2_pos [of i] by (simp add: mult_le_cancel_right1)
qed

lemma ilog2_lower:
  assumes "0 < a"
  shows "pow2 (ilog2 a) \<le> a"
proof -
  obtain p d where pd: "quotient_of a = (p, d)"
    by (cases "quotient_of a")
  then have d: "0 < d" and a: "a = of_int p / of_int d"
    using quotient_of_denom_pos [OF pd] quotient_of_div [OF pd] by simp_all
  from assms a d have p: "0 < p"
    by (simp add: zero_less_divide_iff)
  let ?k = "bitlen p - bitlen d"
  show ?thesis
  proof (cases "pow2 ?k \<le> a")
    case True
    then show ?thesis
      by (simp add: ilog2_def pd)
  next
    case False
    have bp: "2 ^ nat (bitlen p - 1) \<le> p" and bd: "d < 2 ^ nat (bitlen d)"
      using bitlen_bounds [OF p] bitlen_bounds [OF d] by simp_all
    have p1: "1 \<le> bitlen p"
      using p bitlen_eq_zero_iff [of p] bitlen_nonneg [of p] by linarith
    have e: "?k - 1 = (bitlen p - 1) - bitlen d"
      by simp
    have "pow2 ((bitlen p - 1) - bitlen d) = 2 ^ nat (bitlen p - 1) / 2 ^ nat (bitlen d)"
      by (rule pow2_diff) (use p1 bitlen_nonneg [of d] in simp_all)
    then have "pow2 (?k - 1) = 2 ^ nat (bitlen p - 1) / 2 ^ nat (bitlen d)"
      by (simp only: e)
    also have "\<dots> \<le> of_int p / 2 ^ nat (bitlen d)"
    proof -
      have "(2::rat) ^ nat (bitlen p - 1) \<le> of_int p"
        using bp by (metis of_int_le_iff of_int_numeral of_int_power)
      then show ?thesis
        by (simp add: divide_right_mono)
    qed
    also have "\<dots> \<le> of_int p / of_int d"
    proof -
      have "(of_int d :: rat) \<le> 2 ^ nat (bitlen d)"
        using bd by (metis less_imp_le of_int_le_iff of_int_numeral of_int_power)
      then show ?thesis
        using p d by (simp add: frac_le)
    qed
    finally have "pow2 (?k - 1) \<le> a"
      by (simp add: a)
    with False show ?thesis
      by (simp add: ilog2_def pd)
  qed
qed

lemma roundHalfEven_ge_floor: "\<lfloor>x\<rfloor> \<le> roundHalfEven x"
  by (simp add: roundHalfEven_def Let_def)

lemma fl_overflow:
  assumes "pow2 1024 \<le> q"
  shows "fl q = PlusInfinity"
proof -
  have q: "0 < q"
    using assms pow2_pos [of 1024] by linarith
  define e where "e = max (ilog2 q - 52) (- 1074)"
  define m where "m = roundHalfEven (q / pow2 e)"
  have "pow2 1024 \<le> of_int m * pow2 e"
  proof (cases "e \<le> 1024")
    case True
    define n where "n = nat (1024 - e)"
    have split: "pow2 1024 = of_int (2 ^ n) * pow2 e"
      using pow2_split [OF True] True by (simp add: pow2_def n_def)
    then have "of_int (2 ^ n) \<le> q / pow2 e"
      using assms pow2_pos [of e] by (simp add: pos_le_divide_eq)
    then have "2 ^ n \<le> \<lfloor>q / pow2 e\<rfloor>"
      by (simp only: le_floor_iff)
    then have "2 ^ n \<le> m"
      using roundHalfEven_ge_floor [of "q / pow2 e"] unfolding m_def by linarith
    then have "(of_int (2 ^ n) :: rat) \<le> of_int m"
      by (simp only: of_int_le_iff)
    then show ?thesis
      using pow2_pos [of e] by (simp only: split mult_le_cancel_right) simp
  next
    case False
    then have e: "e = ilog2 q - 52"
      by (simp add: e_def max_def split: if_splits)
    then have "pow2 e \<le> pow2 (ilog2 q)"
      by (intro pow2_mono) simp
    also have "\<dots> \<le> q"
      using q by (rule ilog2_lower)
    finally have "1 \<le> q / pow2 e"
      using pow2_pos [of e] by (simp add: pos_le_divide_eq)
    then have "1 \<le> \<lfloor>q / pow2 e\<rfloor>"
      by (simp add: le_floor_iff)
    then have "1 \<le> m"
      using roundHalfEven_ge_floor [of "q / pow2 e"] unfolding m_def by linarith
    then have "(1::rat) \<le> of_int m"
      by simp
    then have "pow2 e \<le> of_int m * pow2 e"
      using pow2_pos [of e] by (simp add: mult_le_cancel_right2)
    moreover have "pow2 1024 \<le> pow2 e"
      using False by (intro pow2_mono) simp
    ultimately show ?thesis
      by linarith
  qed
  then show ?thesis
    using q by (simp add: fl_def Let_def e_def m_def)
qed

lemma Math_pow10_2: "Math_pow10 MAX_DECIMALS = Finite 100"
  by code_simp

lemma fl_1000: "fl 1000 = Finite 1000"
  by code_simp

lemma fl_10: "fl 10 = Finite 10"
  by code_simp

lemma roundToDecimals_finite:
  assumes "fl (q * 100) = Finite y"
  shows "roundToDecimals (Finite q) MAX_DECIMALS = fl (of_int \<lfloor>y + 1 / 2\<rfloor> / 100)"
  using assms by (simp add: roundToDecimals_def Math_pow10_2)

lemma roundToDecimals_overflow:
  assumes "fl (q * 100) = PlusInfinity"
  shows "roundToDecimals (Finite q) MAX_DECIMALS = PlusInfinity"
  using assms by (simp add: roundToDecimals_def Math_pow10_2)

lemma Price_create_cases:
  "Price_create a co =
     (let c = (case co of None \<Rightarrow> ''USD'' | Some c \<Rightarrow> c) in
      if toUpperCase c \<notin> set SUPPORTED_CURRENCIES
      then Inl (Error (''Invalid currency: '' @ c @
                  ''. Supported currencies: USD, EUR, GBP, MXN, CAD, AUD''))
      else case a of
             Finite q \<Rightarrow>
               if q < 0 then Inl (ErrorReceived ''Price amount cannot be negative. Received: '' a)
               else Inr \<lparr>amount = roundToDecimals a MAX_DECIMALS, currency = toUpperCase c\<rparr>
           | MinusInfinity \<Rightarrow> Inl (ErrorReceived ''Price amount cannot be negative. Received: '' a)
           | _ \<Rightarrow> Inl (ErrorReceived ''Price amount must be a valid number. Received: '' a))"
proof -
  have j: "join SUPPORTED_CURRENCIES '', '' = ''USD, EUR, GBP, MXN, CAD, AUD''"
    by code_simp
  show ?thesis
    by (cases a) (simp_all add: Price_create_def Let_def j MIN_AMOUNT_def)
qed

lemma usd_normalised:
  shows "toUpperCase ''usd'' = ''USD''" and "''USD'' \<in> set SUPPORTED_CURRENCIES"
    and "''usd'' \<notin> set SUPPORTED_CURRENCIES" and "toUpperCase ''USD'' = ''USD''"
  by code_simp+

text \<open>
  From \<open>2\<^sup>1\<^sup>0\<^sup>2\<^sup>4 / 100\<close> on the product with 100 overflows, and the price created for
  a finite amount has the amount \<open>Infinity\<close>.
\<close>

lemma Price_create_overflow:
  assumes "0 \<le> q" and "pow2 1024 \<le> q * 100"
  shows "Price_create (Finite q) None = Inr \<lparr>amount = PlusInfinity, currency = ''USD''\<rparr>"
  using assms
  by (simp add: Price_create_cases usd_normalised roundToDecimals_overflow fl_overflow)

lemma Price_create_2_1020:
  "Price_create (Finite (2 ^ 1020)) None = Inr \<lparr>amount = PlusInfinity, currency = ''USD''\<rparr>"
  by (rule Price_create_overflow) (simp_all add: pow2_def)

text \<open>
  The rounding is the one of double arithmetic: the literal \<open>1.005\<close> is the double just
  below it, its product with 100 is the double just below \<open>100.5\<close>, and the price is 1.
\<close>

lemma fl_1_005: "fl (201 / 200) = Finite (1131529406376837 / 1125899906842624)"
  by code_simp

lemma fl_1_005_times_100:
  "fl (1131529406376837 / 1125899906842624 * 100) = Finite (7072058789855231 / 70368744177664)"
  by code_simp

lemma fl_1: "fl 1 = Finite 1"
  by code_simp

lemma Price_create_1_005:
  "Price_create (fl (201 / 200)) None = Inr \<lparr>amount = Finite 1, currency = ''USD''\<rparr>"
proof -
  have "\<lfloor>7072058789855231 / 70368744177664 + 1 / 2 :: rat\<rfloor> = 100"
    by (rule floor_unique) simp_all
  then have "roundToDecimals (Finite (1131529406376837 / 1125899906842624)) MAX_DECIMALS = Finite 1"
    by (simp only: roundToDecimals_finite [OF fl_1_005_times_100]) (simp add: fl_1)
  then show ?thesis
    by (simp add: Price_create_cases fl_1_005 usd_normalised)
qed

text \<open>
  C7, as stated: \<open>Price.create\<close> fails exactly when the amount is negative or not
  finite or the currency is not one of \<open>USD, EUR, GBP, MXN, CAD, AUD\<close>, and it fails with
  the \<open>InvalidValue\<close> error. The currency \<open>usd\<close> is not in that set and
  \<open>create(10, "usd")\<close> succeeds; \<open>create(-1, "USD")\<close> fails with the built-in \<open>Error\<close>.
\<close>

theorem C7_currency_and_error_kind_counterexample:
  "''usd'' \<notin> set SUPPORTED_CURRENCIES
   \<and> \<not> isl (Price_create (Finite 10) (Some ''usd''))
   \<and> Price_create (Finite (- 1)) (Some ''USD'')
       = Inl (ErrorReceived ''Price amount cannot be negative. Received: '' (Finite (- 1)))
   \<and> isBuiltinError (ErrorReceived ''Price amount cannot be negative. Received: '' (Finite (- 1)))"
  by (simp add: Price_create_cases Let_def usd_normalised)

text \<open>
  C7, amended. \<open>Price.create(amount, currency)\<close> fails exactly when the upper-cased
  currency is not in the supported set, the amount is below zero, or the amount is not
  finite, and every failure is the built-in \<open>Error\<close>. For a supported currency and a
  finite amount \<open>q \<ge> 0\<close> whose double product \<open>q \<times> 100\<close> is a finite \<open>y\<close>, the result
  has the upper-cased currency and the amount \<open>Math.round(y) / 100\<close>: the double nearest
  to \<open>n / 100\<close>, where \<open>n\<close> is the integer nearest to \<open>y\<close> (the larger on a tie).
\<close>

theorem C7_price_create:
  "(isl (Price_create a co) \<longleftrightarrow>
      toUpperCase (case co of None \<Rightarrow> ''USD'' | Some c \<Rightarrow> c) \<notin> set SUPPORTED_CURRENCIES
      \<or> lessThan_double a (Finite 0) \<or> \<not> isFinite a)
   \<and> (\<forall>e. Price_create a co = Inl e \<longrightarrow> isBuiltinError e)
   \<and> (\<forall>q y. a = Finite q \<and> 0 \<le> q \<and> fl (q * 100) = Finite y
         \<and> toUpperCase (case co of None \<Rightarrow> ''USD'' | Some c \<Rightarrow> c) \<in> set SUPPORTED_CURRENCIES
       \<longrightarrow> Price_create a co =
             Inr \<lparr>amount = fl (of_int \<lfloor>y + 1 / 2\<rfloor> / 100),
                  currency = toUpperCase (case co of None \<Rightarrow> ''USD'' | Some c \<Rightarrow> c)\<rparr>)"
proof (intro conjI allI impI)
  show "isl (Price_create a co) \<longleftrightarrow>
      toUpperCase (case co of None \<Rightarrow> ''USD'' | Some c \<Rightarrow> c) \<notin> set SUPPORTED_CURRENCIES
      \<or> lessThan_double a (Finite 0) \<or> \<not> isFinite a"
    by (cases a) (auto simp: Price_create_cases Let_def)
next
  fix e
  assume "Price_create a co = Inl e"
  then show "isBuiltinError e"
    by (cases a) (auto simp: Price_create_cases Let_def split: if_splits)
next
  fix q y
  assume "a = Finite q \<and> 0 \<le> q \<and> fl (q * 100) = Finite y
         \<and> toUpperCase (case co of None \<Rightarrow> ''USD'' | Some c \<Rightarrow> c) \<in> set SUPPORTED_CURRENCIES"
  then show "Price_create a co =
             Inr \<lparr>amount = fl (of_int \<lfloor>y + 1 / 2\<rfloor> / 100),
                  currency = toUpperCase (case co of None \<Rightarrow> ''USD'' | Some c \<Rightarrow> c)\<rparr>"
    by (auto simp: Price_create_cases Let_def roundToDecimals_finite)
qed

theorem C7_price_create_witness:
  "Price_create (Finite 10) (Some ''usd'') = Inr \<lparr>amount = Finite 10, currency = ''USD''\<rparr>
   \<and> isl (Price_create (Finite (- 1)) None)
   \<and> isl (Price_create NotANumber None)"
proof -
  have h: "Finite 10 = Finite 10 \<and> (0::rat) \<le> 10 \<and> fl (10 * 100) = Finite 1000
      \<and> toUpperCase (case Some ''usd'' of None \<Rightarrow> ''USD'' | Some c \<Rightarrow> c)
          \<in> set SUPPORTED_CURRENCIES"
    by (simp add: fl_1000 usd_normalised)
  have r: "\<lfloor>2001 / 2 :: rat\<rfloor> = 1000"
    by (rule floor_unique) simp_all
  have "Price_create (Finite 10) (Some ''usd'') = Inr \<lparr>amount = Finite 10, currency = ''USD''\<rparr>"
    using C7_price_create [of "Finite 10" "Some ''usd''", THEN conjunct2, THEN conjunct2,
        THEN spec, THEN spec, THEN mp, OF h]
    by (simp add: r fl_10 usd_normalised)
  moreover have "isl (Price_create (Finite (- 1)) None)"
    using C7_price_create [of "Finite (- 1)" None, THEN conjunct1] by simp
  moreover have "isl (Price_create NotANumber None)"
    using C7_price_create [of NotANumber None, THEN conjunct1] by simp
  ultimately show ?thesis
    by simp
qed
end
